theory Spec2Isabelle
  imports Main "HOL-Library.Multiset" "HOL-Library.Product_Lexorder" "HOL-Library.Word"
begin

section \<open>Exceptions and reports\<close>

text \<open>
  The exceptions of the program are values. \<open>exn\<close> stands for whatever a Python
  statement can raise, the instances of \<open>BaseException\<close>. \<open>InvalidInputFormat\<close> carries
  its message (without the formatted chunk), \<open>ExtractError\<close> carries its tuple of
  reports, and every other instance of \<open>Exception\<close> is \<open>OtherException\<close> with a
  description. \<open>BaseException\<close> is an exception that is not an instance of \<open>Exception\<close>,
  such as \<open>KeyboardInterrupt\<close> or \<open>SystemExit\<close>: the \<open>except Exception\<close> clauses of
  \<open>unblob/processing.py\<close> do not catch it.
\<close>

text \<open>
  Modelled from the spec: \<open>Severity\<close> and the reports, whose module \<open>unblob/report.py\<close> is
  not among the sources. Section 4.8 of the specification gives each report a severity
  among \<open>ERROR\<close>, \<open>WARNING\<close> and \<open>INFO\<close>; unblob/cli.py names the first two. A report is
  either the \<open>UnknownError\<close> built by \<open>Processor._process_error\<close>, a report with a
  severity made by one of the external collaborators, or a profiling report.
\<close>

datatype severity = ERROR | WARNING | INFO

datatype exn =
    InvalidInputFormat string
  | ExtractError "report list"
  | OtherException string
  | BaseException string
and report =
    UnknownError exn
  | SeverityReport severity string
  | PerfReport string

text \<open>\<open>isinstance(exc, Exception)\<close>, the test of an \<open>except Exception\<close> clause.\<close>

definition is_Exception :: "exn \<Rightarrow> bool" where
  "is_Exception exc = (case exc of BaseException _ \<Rightarrow> False | _ \<Rightarrow> True)"

section \<open>The chunk model (unblob/models.py)\<close>

type_synonym path = string

record task =
  root :: path
  path :: path
  depth :: int

record chunk =
  start_offset :: int
  end_offset :: int

text \<open>
  \<open>ValidChunk\<close> extends \<open>Chunk\<close>. Its \<open>handler\<close> attribute is declared with
  \<open>init=False\<close>: the constructor leaves it unset (\<open>None\<close> here) and the finder assigns
  it afterwards.
\<close>

record 'h valid_chunk = chunk +
  handler :: "'h option"
  is_encrypted :: bool

text \<open>\<open>Chunk.__attrs_post_init__\<close>: the two checks, in the order of the source.\<close>

definition post_init :: "int \<Rightarrow> int \<Rightarrow> exn option" where
  "post_init s e =
     (if s < 0 \<or> e < 0 then Some (InvalidInputFormat ''Chunk has negative offset'')
      else if s \<ge> e then
        Some (InvalidInputFormat ''Chunk has higher start_offset than end_offset'')
      else None)"

text \<open>The constructors: the attributes are set, then \<open>__attrs_post_init__\<close> runs.\<close>

definition Chunk :: "int \<Rightarrow> int \<Rightarrow> exn + chunk" where
  "Chunk s e =
     (case post_init s e of
        Some err \<Rightarrow> Inl err
      | None \<Rightarrow> Inr \<lparr>start_offset = s, end_offset = e\<rparr>)"

definition UnknownChunk :: "int \<Rightarrow> int \<Rightarrow> exn + chunk" where
  "UnknownChunk s e = Chunk s e"

definition ValidChunk :: "int \<Rightarrow> int \<Rightarrow> bool \<Rightarrow> exn + 'h valid_chunk" where
  "ValidChunk s e enc =
     (case post_init s e of
        Some err \<Rightarrow> Inl err
      | None \<Rightarrow> Inr \<lparr>start_offset = s, end_offset = e, handler = None, is_encrypted = enc\<rparr>)"

text \<open>The property \<open>Chunk.size\<close>.\<close>

definition chunk_size :: "'a chunk_scheme \<Rightarrow> int" where
  "chunk_size c = end_offset c - start_offset c"

definition contains :: "'a chunk_scheme \<Rightarrow> 'b chunk_scheme \<Rightarrow> bool" where
  "contains self other =
     (start_offset self < start_offset other \<and> end_offset self \<ge> end_offset other)"

definition contains_offset :: "'a chunk_scheme \<Rightarrow> int \<Rightarrow> bool" where
  "contains_offset self offset = (start_offset self \<le> offset \<and> offset < end_offset self)"

section \<open>The chunk reconciler (unblob/processing.py)\<close>

text \<open>
  \<open>sorted(chunks, key=attrgetter("size"), reverse=True)\<close> is a stable sort in descending
  order of the key: chunks of equal size keep their order. \<open>sort_key\<close> is a stable
  insertion sort in ascending order, so the key is negated.
\<close>

definition chunks_by_size :: "'a chunk_scheme list \<Rightarrow> 'a chunk_scheme list" where
  "chunks_by_size chunks = sort_key (\<lambda>c. - chunk_size c) chunks"

text \<open>The \<open>for\<close> loop of \<open>remove_inner_chunks\<close>, with \<open>outer_chunks\<close> as accumulator.\<close>

fun outer_loop :: "'a chunk_scheme list \<Rightarrow> 'a chunk_scheme list \<Rightarrow> 'a chunk_scheme list" where
  "outer_loop outer_chunks [] = outer_chunks"
| "outer_loop outer_chunks (c # rest) =
     (if \<not> list_ex (\<lambda>outer. contains outer c) outer_chunks
      then outer_loop (outer_chunks @ [c]) rest
      else outer_loop outer_chunks rest)"

definition remove_inner_chunks :: "'a chunk_scheme list \<Rightarrow> 'a chunk_scheme list" where
  "remove_inner_chunks chunks =
     (if chunks = [] then []
      else (case chunks_by_size chunks of
              [] \<Rightarrow> []
            | first # rest \<Rightarrow> outer_loop [first] rest))"

text \<open>
  The reconciler as section 4.2 of the specification words it: sort by size descending,
  start from an empty list of outer chunks, and append a chunk only if no chunk accepted
  so far contains it.
\<close>

definition spec_remove_inner_chunks :: "'a chunk_scheme list \<Rightarrow> 'a chunk_scheme list" where
  "spec_remove_inner_chunks chunks = outer_loop [] (chunks_by_size chunks)"

text \<open>
  Modelled from the spec: \<open>pairwise\<close> of \<open>unblob/iter_utils.py\<close>, which is not among the
  sources. Section 4.2 of the specification has \<open>calculate_unknown_chunks\<close> look at "each
  adjacent pair": \<open>pairwise\<close> yields the adjacent pairs of a sequence, in order.
\<close>

definition pairwise_adj :: "'a list \<Rightarrow> ('a \<times> 'a) list" where
  "pairwise_adj xs = zip xs (tl xs)"

text \<open>
  The \<open>for\<close> loop of \<open>calculate_unknown_chunks\<close> over the adjacent pairs. The
  \<open>UnknownChunk\<close> constructor raises when the next chunk starts before the previous one
  ends, and the exception leaves the function.
\<close>

fun gap_loop :: "chunk list \<Rightarrow> ('a chunk_scheme \<times> 'a chunk_scheme) list \<Rightarrow> exn + chunk list" where
  "gap_loop unknown_chunks [] = Inr unknown_chunks"
| "gap_loop unknown_chunks ((c, next_chunk) # rest) =
     (let diff = start_offset next_chunk - end_offset c in
      if diff \<noteq> 0 then
        (case UnknownChunk (end_offset c) (start_offset next_chunk) of
           Inl err \<Rightarrow> Inl err
         | Inr unknown_chunk \<Rightarrow> gap_loop (unknown_chunks @ [unknown_chunk]) rest)
      else gap_loop unknown_chunks rest)"

text \<open>
  The body of \<open>calculate_unknown_chunks\<close> once the chunks are sorted by start offset:
  the gap before the first chunk, the gaps between adjacent chunks, the gap after the
  last chunk. Indexing an empty list raises in Python.
\<close>

definition unknown_between :: "'a chunk_scheme list \<Rightarrow> int \<Rightarrow> exn + chunk list" where
  "unknown_between sorted_by_offset file_size =
     (case sorted_by_offset of
        [] \<Rightarrow> Inl (OtherException ''IndexError'')
      | first # _ \<Rightarrow>
          (case (if start_offset first \<noteq> 0
                 then (case UnknownChunk 0 (start_offset first) of
                         Inl err \<Rightarrow> Inl err
                       | Inr unknown_chunk \<Rightarrow> Inr [unknown_chunk])
                 else Inr []) of
             Inl err \<Rightarrow> Inl err
           | Inr unknown_chunks \<Rightarrow>
               (case gap_loop unknown_chunks (pairwise_adj sorted_by_offset) of
                  Inl err \<Rightarrow> Inl err
                | Inr unknown_chunks' \<Rightarrow>
                    let last_chunk = last sorted_by_offset in
                    if end_offset last_chunk < file_size then
                      (case UnknownChunk (end_offset last_chunk) file_size of
                         Inl err \<Rightarrow> Inl err
                       | Inr unknown_chunk \<Rightarrow> Inr (unknown_chunks' @ [unknown_chunk]))
                    else Inr unknown_chunks')))"

definition calculate_unknown_chunks :: "'a chunk_scheme list \<Rightarrow> int \<Rightarrow> exn + chunk list" where
  "calculate_unknown_chunks chunks file_size =
     (if chunks = [] \<or> file_size = 0 then Inr []
      else unknown_between (sort_key start_offset chunks) file_size)"




text \<open>
  The order in which \<open>calculate_unknown_chunks\<close> meets the outer chunks: by start offset
  and, among chunks with the same start, the larger one first.
\<close>

definition offset_key :: "'a chunk_scheme \<Rightarrow> int \<times> int" where
  "offset_key c = (start_offset c, - end_offset c)"


section \<open>Task results and configuration\<close>

text \<open>\<open>TaskResult\<close> (unblob/models.py): the task, its reports and the tasks it enqueues.\<close>

record task_result =
  result_task :: task
  reports :: "report list"
  new_tasks :: "task list"

definition TaskResult :: "task \<Rightarrow> task_result" where
  "TaskResult t = \<lparr>result_task = t, reports = [], new_tasks = []\<rparr>"

definition add_report :: "report \<Rightarrow> task_result \<Rightarrow> task_result" where
  "add_report r res = res\<lparr>reports := reports res @ [r]\<rparr>"

definition add_new_task :: "task \<Rightarrow> task_result \<Rightarrow> task_result" where
  "add_new_task t res = res\<lparr>new_tasks := new_tasks res @ [t]\<rparr>"

text \<open>
  \<open>ExtractionConfig\<close> (unblob/processing.py), with the fields the task processing reads.
  The handlers are consulted by the pattern finder only, which is a parameter below.
\<close>

record extraction_config =
  extract_root :: path
  entropy_depth :: int
  entropy_plot :: bool
  max_depth :: int
  keep_extracted_chunks :: bool

section \<open>Effects of processing a task\<close>

text \<open>
  Processing a task mutates its \<open>TaskResult\<close>, reads and writes the file system and
  writes to the log. The state threaded through the model holds the result, the file
  system (of a type left open) and the trace of what was done: the log calls of the
  source and the calls to the collaborators that search, carve and extract. A call is
  recorded with its arguments, whatever its outcome.
\<close>

datatype log_level = LogDebug | LogWarning | LogException

datatype event =
    Log log_level string
  | SearchChunks path
  | MakeExtractDir path
  | CarveUnknownChunks path
  | CalculateEntropy path
  | CarveValidChunk path
  | Mkdir path
  | ExtractorExtract path path
  | Unlink path
  | FixExtractedDirectory path

record 'fs world =
  fs :: 'fs
  events :: "event list"

record 'fs state = "'fs world" +
  result :: task_result

definition emit :: "event \<Rightarrow> ('fs, 'a) state_scheme \<Rightarrow> ('fs, 'a) state_scheme" where
  "emit e st = st\<lparr>events := events st @ [e]\<rparr>"

definition log :: "log_level \<Rightarrow> string \<Rightarrow> ('fs, 'a) state_scheme \<Rightarrow> ('fs, 'a) state_scheme" where
  "log level msg st = emit (Log level msg) st"

definition report_to :: "report \<Rightarrow> 'fs state \<Rightarrow> 'fs state" where
  "report_to r st = st\<lparr>result := add_report r (result st)\<rparr>"

definition enqueue :: "task \<Rightarrow> 'fs state \<Rightarrow> 'fs state" where
  "enqueue t st = st\<lparr>result := add_new_task t (result st)\<rparr>"

text \<open>
  \<open>Extractor\<close> and \<open>Handler\<close> (unblob/models.py). \<open>Extractor.extract\<close> is abstract: it
  is a function on the file system that may raise. \<open>EXTRACTOR\<close> is optional.
\<close>

type_synonym 'fs extractor = "path \<Rightarrow> path \<Rightarrow> 'fs \<Rightarrow> exn option \<times> 'fs"

record 'fs handler_class =
  NAME :: string
  EXTRACTOR :: "'fs extractor option"

datatype file_type = S_IFDIR | S_IFLNK | S_IFREG | S_IFOTHER

definition S_ISDIR :: "file_type \<Rightarrow> bool" where
  "S_ISDIR mode = (mode = S_IFDIR)"

definition S_ISLNK :: "file_type \<Rightarrow> bool" where
  "S_ISLNK mode = (mode = S_IFLNK)"

text \<open>
  The collaborators that are not among the sources (unblob/extractor.py, finder.py,
  file_utils.py, profiling.py, math.py) and the operations of \<open>pathlib.Path\<close> are
  parameters, collected in an environment. Each of them may raise. Those that receive
  the \<open>TaskResult\<close> return the reports they add to it. \<open>perf_reports\<close> are the reports a
  \<open>PerfCounter\<close> with a given title adds to the result when its block is left.
  \<open>calculate_entropy\<close> (unblob/processing.py) computes with floating-point numbers and
  only logs; its outcome is a parameter as well.
\<close>

record 'fs env =
  valid_path :: "path \<Rightarrow> bool"
  lstat :: "path \<Rightarrow> 'fs \<Rightarrow> exn + (file_type \<times> int)"
  iterdir :: "path \<Rightarrow> 'fs \<Rightarrow> path list \<times> exn option"
  open_rb :: "path \<Rightarrow> 'fs \<Rightarrow> exn option"
  search_chunks_by_priority ::
    "path \<Rightarrow> int \<Rightarrow> 'fs \<Rightarrow> report list \<times> (exn + 'fs handler_class valid_chunk list)"
  make_extract_dir :: "path \<Rightarrow> path \<Rightarrow> path \<Rightarrow> 'fs \<Rightarrow> (exn + path) \<times> 'fs"
  carve_unknown_chunks :: "path \<Rightarrow> chunk list \<Rightarrow> 'fs \<Rightarrow> (exn + path list) \<times> 'fs"
  carve_valid_chunk :: "path \<Rightarrow> 'fs handler_class valid_chunk \<Rightarrow> 'fs \<Rightarrow> (exn + path) \<times> 'fs"
  get_extract_paths :: "path \<Rightarrow> path \<Rightarrow> path \<times> path"
  fix_extracted_directory :: "path \<Rightarrow> 'fs \<Rightarrow> (report list \<times> exn option) \<times> 'fs"
  calculate_entropy :: "path \<Rightarrow> bool \<Rightarrow> 'fs \<Rightarrow> exn option"
  path_exists :: "path \<Rightarrow> 'fs \<Rightarrow> bool"
  mkdir :: "path \<Rightarrow> 'fs \<Rightarrow> exn + 'fs"
  unlink :: "path \<Rightarrow> 'fs \<Rightarrow> exn + 'fs"
  perf_reports :: "string \<Rightarrow> report list"

text \<open>
  A procedure of the source returns nothing and may raise: it maps a state to the
  exception that left it, if any, and the state it leaves behind.
\<close>

type_synonym 'fs proc = "'fs state \<Rightarrow> exn option \<times> 'fs state"

text \<open>\<open>with PerfCounter(result, title): body\<close>.\<close>

definition with_perf_counter :: "'fs env \<Rightarrow> string \<Rightarrow> 'fs proc \<Rightarrow> 'fs proc" where
  "with_perf_counter env title body st =
     (case body st of
        (outcome, st') \<Rightarrow> (outcome, fold report_to (perf_reports env title) st'))"

section \<open>Extraction of a valid chunk\<close>

text \<open>\<open>Handler.extract\<close> (unblob/models.py).\<close>

definition handler_extract :: "'fs env \<Rightarrow> 'fs handler_class \<Rightarrow> path \<Rightarrow> path \<Rightarrow> 'fs proc" where
  "handler_extract env h inpath outdir st =
     (case EXTRACTOR h of
        None \<Rightarrow> (Some (ExtractError []), log LogDebug ''Skipping file: no extractor.'' st)
      | Some extractor \<Rightarrow>
          (case mkdir env outdir (fs st) of
             Inl err \<Rightarrow> (Some err, emit (Mkdir outdir) st)
           | Inr fs' \<Rightarrow>
               let st' = emit (Mkdir outdir) (st\<lparr>fs := fs'\<rparr>) in
               (case extractor inpath outdir (fs st') of
                  (outcome, fs'') \<Rightarrow>
                    (outcome, emit (ExtractorExtract inpath outdir) (st'\<lparr>fs := fs''\<rparr>)))))"

text \<open>
  \<open>ValidChunk.extract\<close> (unblob/models.py). Reading the \<open>handler\<close> attribute of a chunk
  on which it was never set raises \<open>AttributeError\<close>.
\<close>

definition valid_chunk_extract ::
  "'fs env \<Rightarrow> 'fs handler_class valid_chunk \<Rightarrow> path \<Rightarrow> path \<Rightarrow> 'fs proc" where
  "valid_chunk_extract env chunk inpath outdir st =
     (if is_encrypted chunk then
        (Some (ExtractError []), log LogWarning ''Encrypted file is not extracted'' st)
      else
        (case handler chunk of
           None \<Rightarrow> (Some (OtherException ''AttributeError''), st)
         | Some h \<Rightarrow> handler_extract env h inpath outdir st))"

text \<open>
  The two \<open>except\<close> clauses of \<open>_FileTask._extract_chunk\<close>, \<open>except ExtractError\<close> and
  then \<open>except Exception\<close>. An exception that neither clause names goes on.
\<close>

definition extract_failed :: "exn \<Rightarrow> 'fs proc" where
  "extract_failed err st =
     (case err of
        ExtractError e_reports \<Rightarrow> (None, fold report_to e_reports st)
      | _ \<Rightarrow>
          if is_Exception err then
            (None, report_to (UnknownError err)
                     (log LogException ''Unknown error happened while extracting chunk'' st))
          else (Some err, st))"

text \<open>The \<open>try\<close> block of \<open>_FileTask._extract_chunk\<close> with its handlers.\<close>

definition try_extract ::
  "'fs env \<Rightarrow> extraction_config \<Rightarrow> 'fs handler_class valid_chunk \<Rightarrow> path \<Rightarrow> path \<Rightarrow>
   'fs proc" where
  "try_extract env config chunk inpath outdir st =
     (case valid_chunk_extract env chunk inpath outdir st of
        (Some err, st') \<Rightarrow> extract_failed err st'
      | (None, st') \<Rightarrow>
          if \<not> keep_extracted_chunks config then
            (let st'' = log LogDebug ''Removing extracted chunk'' st' in
             case unlink env inpath (fs st'') of
               Inl err \<Rightarrow> extract_failed err (emit (Unlink inpath) st'')
             | Inr fs' \<Rightarrow> (None, emit (Unlink inpath) (st''\<lparr>fs := fs'\<rparr>)))
          else (None, st'))"

text \<open>\<open>_FileTask._extract_chunk\<close>.\<close>

definition extract_chunk ::
  "'fs env \<Rightarrow> extraction_config \<Rightarrow> task \<Rightarrow> path \<Rightarrow> 'fs handler_class valid_chunk \<Rightarrow> 'fs proc" where
  "extract_chunk env config t extract_dir chunk st =
     (case carve_valid_chunk env extract_dir chunk (fs st) of
        (Inl err, fs') \<Rightarrow> (Some err, emit (CarveValidChunk extract_dir) (st\<lparr>fs := fs'\<rparr>))
      | (Inr carved_path, fs') \<Rightarrow>
          (case get_extract_paths env extract_dir carved_path of
             (inpath, outdir) \<Rightarrow>
               let st1 = emit (CarveValidChunk extract_dir) (st\<lparr>fs := fs'\<rparr>) in
               (case try_extract env config chunk inpath outdir st1 of
                  (Some err, st2) \<Rightarrow> (Some err, st2)
                | (None, st2) \<Rightarrow>
                    (case fix_extracted_directory env outdir (fs st2) of
                       ((fix_reports, outcome), fs'') \<Rightarrow>
                         let st3 = fold report_to fix_reports
                                     (emit (FixExtractedDirectory outdir) (st2\<lparr>fs := fs''\<rparr>))
                         in
                         (case outcome of
                            Some err \<Rightarrow> (Some err, st3)
                          | None \<Rightarrow>
                              if path_exists env outdir (fs st3) then
                                (None, enqueue \<lparr>root = extract_root config, path = outdir,
                                                depth = depth t + 1\<rparr> st3)
                              else (None, st3))))))"

section \<open>Processing a file task\<close>

text \<open>
  The loop of \<open>_FileTask._calculate_entropies\<close> over the paths; an exception of
  \<open>calculate_entropy\<close> ends it.
\<close>

fun entropy_loop :: "'fs env \<Rightarrow> extraction_config \<Rightarrow> path list \<Rightarrow> 'fs proc" where
  "entropy_loop env config [] st = (None, st)"
| "entropy_loop env config (p # ps) st =
     (case calculate_entropy env p (entropy_plot config) (fs st) of
        Some err \<Rightarrow> (Some err, emit (CalculateEntropy p) st)
      | None \<Rightarrow> entropy_loop env config ps (emit (CalculateEntropy p) st))"

definition calculate_entropies :: "'fs env \<Rightarrow> extraction_config \<Rightarrow> task \<Rightarrow> path list \<Rightarrow> 'fs proc" where
  "calculate_entropies env config t paths st =
     (if depth t < entropy_depth config then entropy_loop env config paths st
      else (None, st))"

text \<open>
  The loop of \<open>_FileTask._process_chunks\<close> over the outer chunks, each extracted within
  a \<open>PerfCounter\<close>.
\<close>

fun extract_loop ::
  "'fs env \<Rightarrow> extraction_config \<Rightarrow> task \<Rightarrow> path \<Rightarrow> 'fs handler_class valid_chunk list \<Rightarrow>
   'fs proc" where
  "extract_loop env config t extract_dir [] st = (None, st)"
| "extract_loop env config t extract_dir (chunk # rest) st =
     (case with_perf_counter env ''Carve Valid Chunks''
             (extract_chunk env config t extract_dir chunk) st of
        (Some err, st') \<Rightarrow> (Some err, st')
      | (None, st') \<Rightarrow> extract_loop env config t extract_dir rest st')"

text \<open>\<open>_FileTask._process_chunks\<close>.\<close>

definition process_chunks ::
  "'fs env \<Rightarrow> extraction_config \<Rightarrow> task \<Rightarrow> 'fs handler_class valid_chunk list \<Rightarrow> chunk list \<Rightarrow>
   'fs proc" where
  "process_chunks env config t outer_chunks unknown_chunks st =
     (case make_extract_dir env (root t) (path t) (extract_root config) (fs st) of
        (Inl err, fs') \<Rightarrow> (Some err, emit (MakeExtractDir (path t)) (st\<lparr>fs := fs'\<rparr>))
      | (Inr extract_dir, fs') \<Rightarrow>
          let st1 = emit (MakeExtractDir (path t)) (st\<lparr>fs := fs'\<rparr>) in
          (case carve_unknown_chunks env extract_dir unknown_chunks (fs st1) of
             (Inl err, fs'') \<Rightarrow>
               (Some err, emit (CarveUnknownChunks extract_dir) (st1\<lparr>fs := fs''\<rparr>))
           | (Inr carved_unknown_paths, fs'') \<Rightarrow>
               let st2 = emit (CarveUnknownChunks extract_dir) (st1\<lparr>fs := fs''\<rparr>) in
               (case with_perf_counter env ''Calculate Entropy''
                       (calculate_entropies env config t carved_unknown_paths) st2 of
                  (Some err, st3) \<Rightarrow> (Some err, st3)
                | (None, st3) \<Rightarrow> extract_loop env config t extract_dir outer_chunks st3)))"

text \<open>
  The block of \<open>_FileTask.process\<close> inside \<open>with PerfCounter(self.result, "Search Chunks")\<close>:
  the finder adds its reports to the result and returns the chunks, or raises.
\<close>

definition search_chunks ::
  "'fs env \<Rightarrow> task \<Rightarrow> int \<Rightarrow> 'fs state \<Rightarrow>
   (exn + 'fs handler_class valid_chunk list) \<times> 'fs state" where
  "search_chunks env t file_size st =
     (case search_chunks_by_priority env (path t) file_size (fs st) of
        (found_reports, outcome) \<Rightarrow>
          (outcome,
           fold report_to (perf_reports env ''Search Chunks'')
             (fold report_to found_reports (emit (SearchChunks (path t)) st))))"

text \<open>
  The debug log entry of \<open>remove_inner_chunks\<close>, which is written unless the list of
  chunks is empty.
\<close>

definition log_removed :: "'a list \<Rightarrow> 'fs state \<Rightarrow> 'fs state" where
  "log_removed chunks st =
     (if chunks = [] then st else log LogDebug ''Removed inner chunks'' st)"

text \<open>\<open>_FileTask.process\<close>.\<close>

definition process :: "'fs env \<Rightarrow> extraction_config \<Rightarrow> task \<Rightarrow> int \<Rightarrow> 'fs proc" where
  "process env config t file_size st =
     (let st0 = log LogDebug ''Processing file'' st in
      case open_rb env (path t) (fs st0) of
        Some err \<Rightarrow> (Some err, st0)
      | None \<Rightarrow>
          (case search_chunks env t file_size st0 of
             (Inl err, st1) \<Rightarrow> (Some err, st1)
           | (Inr all_chunks, st1) \<Rightarrow>
               let outer_chunks = remove_inner_chunks all_chunks;
                   st2 = log_removed all_chunks st1
               in
               (case calculate_unknown_chunks outer_chunks file_size of
                  Inl err \<Rightarrow> (Some err, st2)
                | Inr unknown_chunks \<Rightarrow>
                    if outer_chunks \<noteq> [] \<or> unknown_chunks \<noteq> [] then
                      process_chunks env config t outer_chunks unknown_chunks st2
                    else
                      with_perf_counter env ''Calculate Entropy''
                        (calculate_entropies env config t [path t]) st2)))"

section \<open>Processing a task\<close>

text \<open>The loop of \<open>Processor._process_task\<close> over the entries of a directory.\<close>

definition enqueue_entries :: "task \<Rightarrow> path list \<Rightarrow> 'fs state \<Rightarrow> 'fs state" where
  "enqueue_entries t entries st =
     fold (\<lambda>p. enqueue \<lparr>root = root t, path = p, depth = depth t\<rparr>) entries st"

text \<open>\<open>Processor._process_task\<close>.\<close>

definition process_task_body :: "'fs env \<Rightarrow> extraction_config \<Rightarrow> task \<Rightarrow> 'fs proc" where
  "process_task_body env config t st =
     (if depth t \<ge> max_depth config then
        (None, log LogDebug ''Reached maximum depth, stop further processing'' st)
      else if \<not> valid_path env (path t) then
        (None, log LogWarning ''Path contains invalid characters, it won't be processed'' st)
      else
        (case lstat env (path t) (fs st) of
           Inl err \<Rightarrow> (Some err, st)
         | Inr (mode, file_size) \<Rightarrow>
             if S_ISDIR mode then
               (case iterdir env (path t) (fs st) of
                  (entries, Some err) \<Rightarrow>
                    (Some err, enqueue_entries t entries (log LogDebug ''Found directory'' st))
                | (entries, None) \<Rightarrow>
                    (None, enqueue_entries t entries (log LogDebug ''Found directory'' st)))
             else if S_ISLNK mode then (None, log LogDebug ''Ignoring symlink'' st)
             else if file_size = 0 then (None, log LogDebug ''Ignoring empty file'' st)
             else with_perf_counter env ''Process Regular File'' (process env config t file_size) st))"

text \<open>\<open>Processor._process_error\<close>.\<close>

definition process_error :: "exn \<Rightarrow> 'fs state \<Rightarrow> 'fs state" where
  "process_error exc st = log LogException ''Unknown error happened'' (report_to (UnknownError exc) st)"

text \<open>
  \<open>Processor.process_task\<close>: a fresh \<open>TaskResult\<close>, the body within a \<open>PerfCounter\<close> and
  a \<open>try\<close>, whose \<open>except Exception\<close> clause calls \<open>_process_error\<close>. The function
  returns the result, which is part of the final state. An exception that the clause
  does not catch leaves the function: it is the first component.
\<close>

definition process_task ::
  "'fs env \<Rightarrow> extraction_config \<Rightarrow> task \<Rightarrow> 'fs world \<Rightarrow> exn option \<times> 'fs state" where
  "process_task env config t w =
     (let st = \<lparr>fs = fs w, events = events w, result = TaskResult t\<rparr> in
      case with_perf_counter env ''Process Task'' (process_task_body env config t) st of
        (Some exc, st') \<Rightarrow>
          if is_Exception exc then (None, process_error exc st') else (Some exc, st')
      | (None, st') \<Rightarrow> (None, st'))"

section \<open>Procedures and the task of the result\<close>

text \<open>A procedure keeps the task when the result it leaves is still that of the same task.\<close>

definition keeps_task :: "'fs proc \<Rightarrow> bool" where
  "keeps_task p = (\<forall>st. result_task (result (snd (p st))) = result_task (result st))"

section \<open>The exit code (unblob/cli.py)\<close>

text \<open>
  \<open>get_exit_code_from_reports\<close> walks the table \<open>severity_to_exit_code\<close> in order and
  returns the exit code of the first severity found among the reports, and 0 when the
  loop ends. The class \<open>Reports\<close> (unblob/report.py) is not among the sources: its
  property \<open>errors\<close> and the attribute \<open>severity\<close> of its members are parameters.
\<close>

definition severity_to_exit_code :: "(severity \<times> int) list" where
  "severity_to_exit_code = [(ERROR, 1), (WARNING, 0)]"

fun exit_code_loop :: "severity set \<Rightarrow> (severity \<times> int) list \<Rightarrow> int" where
  "exit_code_loop severities [] = 0"
| "exit_code_loop severities ((sev, exit_code) # rest) =
     (if sev \<in> severities then exit_code else exit_code_loop severities rest)"

definition get_exit_code_from_reports :: "('rs \<Rightarrow> 'r list) \<Rightarrow> ('r \<Rightarrow> severity) \<Rightarrow> 'rs \<Rightarrow> int" where
  "get_exit_code_from_reports errors severity_of all_reports =
     (let severities = severity_of ` set (errors all_reports) in
      exit_code_loop severities severity_to_exit_code)"

section \<open>The Netgear CHK handler (unblob/handlers/filesystem/netgear.py)\<close>

text \<open>The C structure \<open>chk_header_t\<close>; \<open>uint32\<close> fields are 32-bit words.\<close>

record chk_header =
  magic :: "32 word"
  header_len :: "32 word"
  reserved :: "8 word list"
  kernel_chksum :: "32 word"
  rootfs_chksum :: "32 word"
  kernel_len :: "32 word"
  rootfs_len :: "32 word"
  image_chksum :: "32 word"
  header_chksum :: "32 word"

text \<open>\<open>len(header)\<close>: the size of the structure, nine \<open>uint32\<close> fields and eight bytes.\<close>

definition chk_header_size :: int where
  "chk_header_size = 4 + 4 + 8 + 4 + 4 + 4 + 4 + 4 + 4"

text \<open>
  \<open>NetgearCHKHandler.calculate_chunk\<close>. \<open>parse_header\<close> (the struct parser of
  unblob/file_utils.py, called with \<open>Endian.BIG\<close>) and \<open>file.read\<close> are parameters on a file
  type left open: the parser returns the header and the file advanced, or raises. The
  board id is read and logged only. Python integers do not wrap, so the lengths are
  added as unbounded integers. The function can return \<open>None\<close> by its signature, hence
  the \<open>option\<close>.
\<close>

definition calculate_chunk ::
  "('f \<Rightarrow> exn + chk_header \<times> 'f) \<Rightarrow> ('f \<Rightarrow> int \<Rightarrow> 8 word list \<times> 'f) \<Rightarrow> 'f \<Rightarrow> int \<Rightarrow>
   exn + 'h valid_chunk option" where
  "calculate_chunk parse_header file_read file start =
     (case parse_header file of
        Inl err \<Rightarrow> Inl err
      | Inr (header, file') \<Rightarrow>
          let hdr_len = chk_header_size;
              board_id =
                (if hdr_len < uint (header_len header)
                 then Some (fst (file_read file' (uint (header_len header) - chk_header_size)))
                 else None)
          in
          (case ValidChunk start
                  (start + uint (header_len header) + uint (kernel_len header)
                     + uint (rootfs_len header)) False of
             Inl err \<Rightarrow> Inl err
           | Inr valid_chunk \<Rightarrow> Inr (Some valid_chunk)))"

section \<open>A sample environment\<close>

text \<open>
  An environment on which the model can be run: the file system is the set of the
  paths that exist, carving and extraction directories are created under fixed names,
  the directory fix-up finds nothing to report, and a \<open>PerfCounter\<close> adds one profiling
  report.
\<close>

definition sample_env :: "path set env" where
  "sample_env =
     \<lparr>valid_path = (\<lambda>p. True),
      lstat = (\<lambda>p files. if p \<in> files then Inr (S_IFREG, 4096)
                          else Inl (OtherException ''FileNotFoundError'')),
      iterdir = (\<lambda>p files. ([], None)),
      open_rb = (\<lambda>p files. None),
      search_chunks_by_priority = (\<lambda>p file_size files. ([], Inr [])),
      make_extract_dir = (\<lambda>r p ex_root files. (Inr (p @ ''_extract''), insert (p @ ''_extract'') files)),
      carve_unknown_chunks = (\<lambda>d cs files. (Inr [], files)),
      carve_valid_chunk = (\<lambda>d c files. (Inr (d @ ''/chunk''), insert (d @ ''/chunk'') files)),
      get_extract_paths = (\<lambda>d carved. (carved, carved @ ''_extract'')),
      fix_extracted_directory = (\<lambda>p files. (([], None), files)),
      calculate_entropy = (\<lambda>p plot files. None),
      path_exists = (\<lambda>p files. p \<in> files),
      mkdir = (\<lambda>p files. if p \<in> files then Inl (OtherException ''FileExistsError'')
                          else Inr (insert p files)),
      unlink = (\<lambda>p files. if p \<in> files then Inr (files - {p})
                           else Inl (OtherException ''FileNotFoundError'')),
      perf_reports = (\<lambda>title. [PerfReport title])\<rparr>"

text \<open>The same environment with a \<open>lstat\<close> that is interrupted from the keyboard.\<close>

definition interrupted_env :: "path set env" where
  "interrupted_env =
     sample_env\<lparr>lstat := (\<lambda>p files. Inl (BaseException ''KeyboardInterrupt''))\<rparr>"

text \<open>A handler whose extractor, when it runs, fills the output directory.\<close>

definition sample_handler :: "path set handler_class" where
  "sample_handler =
     \<lparr>NAME = ''zip'', EXTRACTOR = Some (\<lambda>inpath outdir files. (None, insert outdir files))\<rparr>"

definition sample_config :: extraction_config where
  "sample_config =
     \<lparr>extract_root = ''out'', entropy_depth = 1, entropy_plot = False, max_depth = 2,
      keep_extracted_chunks = False\<rparr>"

section \<open>Construction of chunks\<close>


text \<open>
  C5. Constructing \<open>Chunk(start_offset=s, end_offset=e)\<close> raises \<open>InvalidInputFormat\<close>
  exactly when the bounds are invalid: it succeeds, and yields the chunk with these
  bounds, if and only if \<open>0 \<le> s < e\<close>, and otherwise the exception it raises is an
  \<open>InvalidInputFormat\<close>. Hence every constructed chunk has a non-negative start offset
  that is smaller than its end offset.
\<close>

theorem Chunk_construction:
  "((\<exists>msg. Chunk s e = Inl (InvalidInputFormat msg)) \<longleftrightarrow> \<not> (0 \<le> s \<and> s < e))
   \<and> (Chunk s e = Inr \<lparr>start_offset = s, end_offset = e\<rparr> \<longleftrightarrow> 0 \<le> s \<and> s < e)
   \<and> (\<forall>c. Chunk s e = Inr c \<longrightarrow> start_offset c \<ge> 0 \<and> start_offset c < end_offset c)"
  by (auto simp: Chunk_def post_init_def)

theorem Chunk_construction_witness:
  "Chunk 3 8 = Inr \<lparr>start_offset = 3, end_offset = 8\<rparr>
   \<and> (\<exists>msg. Chunk 8 3 = Inl (InvalidInputFormat msg))
   \<and> (\<exists>msg. Chunk (-1) 3 = Inl (InvalidInputFormat msg))"
  using Chunk_construction [of 3 8] Chunk_construction [of 8 3] Chunk_construction [of "-1" 3]
  by simp

section \<open>Removing inner chunks\<close>

lemma contains_size: "contains a b \<Longrightarrow> chunk_size b < chunk_size a"
  by (simp add: contains_def chunk_size_def)

lemma contains_trans: "contains a b \<Longrightarrow> contains b c \<Longrightarrow> contains a c"
  by (simp add: contains_def)

lemma contains_irrefl: "\<not> contains a a"
  by (simp add: contains_def)

lemma ex_outermost_container:
  assumes "d \<in> set xs" "contains d c"
  shows "\<exists>outer \<in> set xs. contains outer c \<and> (\<forall>e \<in> set xs. \<not> contains e outer)"
proof -
  let ?D = "{d \<in> set xs. contains d c}"
  have fin: "finite (chunk_size ` ?D)" and ne: "chunk_size ` ?D \<noteq> {}"
    using assms by auto
  from Max_in [OF fin ne] obtain m where m: "m \<in> ?D" "chunk_size m = Max (chunk_size ` ?D)"
    by auto
  have "\<not> contains e m" if "e \<in> set xs" for e
  proof
    assume em: "contains e m"
    with m(1) have "contains e c" by (auto intro: contains_trans)
    with that have "chunk_size e \<in> chunk_size ` ?D" by auto
    with fin have "chunk_size e \<le> chunk_size m" unfolding m(2) by (rule Max_ge)
    with contains_size [OF em] show False by simp
  qed
  with m(1) show ?thesis by auto
qed

lemma outer_loop_filter:
  "sorted (map (\<lambda>c. - chunk_size c) (xs @ ys)) \<Longrightarrow>
   outer_loop (filter (\<lambda>c. \<forall>d \<in> set xs. \<not> contains d c) xs) ys
     = filter (\<lambda>c. \<forall>d \<in> set (xs @ ys). \<not> contains d c) (xs @ ys)"
proof (induction ys arbitrary: xs)
  case Nil
  then show ?case by simp
next
  case (Cons y ys)
  let ?acc = "filter (\<lambda>c. \<forall>d \<in> set xs. \<not> contains d c) xs"
  have srt: "sorted (map (\<lambda>c. - chunk_size c) ((xs @ [y]) @ ys))"
    using Cons.prems by simp
  have small: "chunk_size y \<le> chunk_size x" if "x \<in> set xs" for x
    using Cons.prems that by (auto simp: sorted_append)
  have keep: "filter (\<lambda>c. \<forall>d \<in> set (xs @ [y]). \<not> contains d c) xs = ?acc"
  proof (rule filter_cong [OF refl])
    fix x assume "x \<in> set xs"
    with small have "\<not> contains y x" using contains_size [of y x] by fastforce
    then show "(\<forall>d \<in> set (xs @ [y]). \<not> contains d x) = (\<forall>d \<in> set xs. \<not> contains d x)"
      by auto
  qed
  have test: "list_ex (\<lambda>outer. contains outer y) ?acc \<longleftrightarrow> (\<exists>d \<in> set xs. contains d y)"
    using ex_outermost_container [of _ xs y] by (auto simp: list_ex_iff)
  have step: "(if \<not> list_ex (\<lambda>outer. contains outer y) ?acc then ?acc @ [y] else ?acc)
      = filter (\<lambda>c. \<forall>d \<in> set (xs @ [y]). \<not> contains d c) (xs @ [y])"
    using keep test by (auto simp: contains_irrefl)
  have "outer_loop ?acc (y # ys)
      = outer_loop (if \<not> list_ex (\<lambda>outer. contains outer y) ?acc then ?acc @ [y] else ?acc) ys"
    by simp
  also have "\<dots> = outer_loop (filter (\<lambda>c. \<forall>d \<in> set (xs @ [y]). \<not> contains d c) (xs @ [y])) ys"
    by (simp only: step)
  also have "\<dots> = filter (\<lambda>c. \<forall>d \<in> set ((xs @ [y]) @ ys). \<not> contains d c) ((xs @ [y]) @ ys)"
    by (rule Cons.IH [OF srt])
  finally show ?case by simp
qed

lemma remove_inner_chunks_loop: "remove_inner_chunks cs = outer_loop [] (chunks_by_size cs)"
proof (cases "chunks_by_size cs")
  case Nil
  then show ?thesis by (simp add: remove_inner_chunks_def)
next
  case (Cons c rest)
  then have "cs \<noteq> []" by (auto simp: chunks_by_size_def)
  with Cons show ?thesis by (simp add: remove_inner_chunks_def)
qed

lemma remove_inner_chunks_filter:
  "remove_inner_chunks cs
     = filter (\<lambda>c. \<forall>d \<in> set cs. \<not> contains d c) (chunks_by_size cs)"
  using outer_loop_filter [of "[]" "chunks_by_size cs"]
  by (simp add: remove_inner_chunks_loop chunks_by_size_def)

lemma set_remove_inner_chunks:
  "set (remove_inner_chunks cs) = {c \<in> set cs. \<forall>d \<in> set cs. \<not> contains d c}"
  by (auto simp: remove_inner_chunks_filter chunks_by_size_def)

lemma count_list_filter: "count_list (filter P xs) a = (if P a then count_list xs a else 0)"
  by (induction xs) auto

lemma count_list_sort_key: "count_list (sort_key f xs) a = count_list xs a"
  by (metis count_mset mset_sort)

text \<open>
  C2. The list returned by \<open>remove_inner_chunks\<close> is pairwise non-containing: no chunk of
  the result contains another chunk of the result, in either direction. The function
  computes the list the way the specification words it: the chunks are sorted by size in
  descending order and a chunk is appended only if no chunk accepted so far contains it.
\<close>

theorem remove_inner_chunks_non_containing:
  "remove_inner_chunks cs = spec_remove_inner_chunks cs
   \<and> (\<forall>a \<in> set (remove_inner_chunks cs). \<forall>b \<in> set (remove_inner_chunks cs).
        \<not> contains a b \<and> \<not> contains b a)"
  by (simp add: spec_remove_inner_chunks_def remove_inner_chunks_loop [symmetric]
      set_remove_inner_chunks)

theorem remove_inner_chunks_non_containing_witness:
  "remove_inner_chunks
       [\<lparr>start_offset = 150, end_offset = 400\<rparr>, \<lparr>start_offset = 100, end_offset = 500\<rparr>,
        \<lparr>start_offset = 450, end_offset = 700\<rparr>]
     = [\<lparr>start_offset = 100, end_offset = 500\<rparr>, \<lparr>start_offset = 450, end_offset = 700\<rparr>]
   \<and> \<not> contains \<lparr>start_offset = 100, end_offset = 500\<rparr> \<lparr>start_offset = 450, end_offset = 700\<rparr>
   \<and> \<not> contains \<lparr>start_offset = 450, end_offset = 700\<rparr> \<lparr>start_offset = 100, end_offset = 500\<rparr>"
proof -
  have run: "remove_inner_chunks
       [\<lparr>start_offset = 150, end_offset = 400\<rparr>, \<lparr>start_offset = 100, end_offset = 500\<rparr>,
        \<lparr>start_offset = 450, end_offset = 700\<rparr>]
     = [\<lparr>start_offset = 100, end_offset = 500\<rparr>, \<lparr>start_offset = 450, end_offset = 700\<rparr>]"
    by (simp add: remove_inner_chunks_def chunks_by_size_def chunk_size_def contains_def)
  show ?thesis
    using remove_inner_chunks_non_containing
      [of "[\<lparr>start_offset = 150, end_offset = 400\<rparr>, \<lparr>start_offset = 100, end_offset = 500\<rparr>,
            \<lparr>start_offset = 450, end_offset = 700\<rparr>]"]
    unfolding run by simp
qed

text \<open>
  C9, as claimed, fails: two chunks with equal bounds that lie inside a third chunk of the
  list are both removed.
\<close>

theorem equal_bounds_counterexample:
  "remove_inner_chunks
     [\<lparr>start_offset = 0, end_offset = 100, handler = Some ''tar'', is_encrypted = False\<rparr>,
      \<lparr>start_offset = 10, end_offset = 20, handler = Some ''gzip'', is_encrypted = False\<rparr>,
      \<lparr>start_offset = 10, end_offset = 20, handler = Some ''zip'', is_encrypted = False\<rparr>]
   = [\<lparr>start_offset = 0, end_offset = 100, handler = Some ''tar'', is_encrypted = False\<rparr>]"
  by (simp add: remove_inner_chunks_def chunks_by_size_def chunk_size_def contains_def)

text \<open>
  C9, amended. Two chunks \<open>a\<close> and \<open>b\<close> with exactly equal bounds never contain one
  another, and \<open>remove_inner_chunks\<close> treats them alike: on a list containing both, it
  keeps both (every occurrence of them) when no chunk of the list contains them, and
  removes both when some chunk of the list does.
\<close>

theorem equal_bounds_kept:
  assumes "start_offset a = start_offset b" "end_offset a = end_offset b"
    and "a \<in> set cs" "b \<in> set cs"
  shows "\<not> contains a b \<and> \<not> contains b a
    \<and> (a \<in> set (remove_inner_chunks cs) \<longleftrightarrow> b \<in> set (remove_inner_chunks cs))
    \<and> ((\<forall>d \<in> set cs. \<not> contains d a) \<longrightarrow>
         a \<in> set (remove_inner_chunks cs) \<and> b \<in> set (remove_inner_chunks cs)
         \<and> count_list (remove_inner_chunks cs) a = count_list cs a
         \<and> count_list (remove_inner_chunks cs) b = count_list cs b)
    \<and> ((\<exists>d \<in> set cs. contains d a) \<longrightarrow>
         a \<notin> set (remove_inner_chunks cs) \<and> b \<notin> set (remove_inner_chunks cs))"
proof -
  have same: "contains d a \<longleftrightarrow> contains d b" for d :: "'a chunk_scheme"
    using assms(1,2) by (simp add: contains_def)
  have nc: "\<not> contains a b \<and> \<not> contains b a"
    using assms(1,2) by (simp add: contains_def)
  have cnt: "count_list (remove_inner_chunks cs) c
      = (if \<forall>d \<in> set cs. \<not> contains d c then count_list cs c else 0)" for c
    by (simp add: remove_inner_chunks_filter chunks_by_size_def count_list_filter
        count_list_sort_key)
  show ?thesis
    using nc assms(3,4) same cnt [of a] cnt [of b]
    by (auto simp: set_remove_inner_chunks)
qed

theorem equal_bounds_kept_witness:
  "\<lparr>start_offset = 10, end_offset = 20, handler = Some ''gzip'', is_encrypted = False\<rparr>
     \<in> set (remove_inner_chunks
         [\<lparr>start_offset = 10, end_offset = 20, handler = Some ''gzip'', is_encrypted = False\<rparr>,
          \<lparr>start_offset = 10, end_offset = 20, handler = Some ''zip'', is_encrypted = False\<rparr>])
   \<and> \<lparr>start_offset = 10, end_offset = 20, handler = Some ''zip'', is_encrypted = False\<rparr>
     \<in> set (remove_inner_chunks
         [\<lparr>start_offset = 10, end_offset = 20, handler = Some ''gzip'', is_encrypted = False\<rparr>,
          \<lparr>start_offset = 10, end_offset = 20, handler = Some ''zip'', is_encrypted = False\<rparr>])"
  using equal_bounds_kept
    [of "\<lparr>start_offset = 10, end_offset = 20, handler = Some ''gzip'', is_encrypted = False\<rparr>"
        "\<lparr>start_offset = 10, end_offset = 20, handler = Some ''zip'', is_encrypted = False\<rparr>"
        "[\<lparr>start_offset = 10, end_offset = 20, handler = Some ''gzip'', is_encrypted = False\<rparr>,
          \<lparr>start_offset = 10, end_offset = 20, handler = Some ''zip'', is_encrypted = False\<rparr>]"]
  by (simp add: contains_def)

section \<open>Unknown chunks do not depend on the order of the chunks\<close>

lemma sorted_offset_key_insort:
  "sorted (map offset_key ys) \<Longrightarrow>
   \<forall>y \<in> set ys. start_offset y = start_offset x \<longrightarrow> end_offset y \<le> end_offset x \<Longrightarrow>
   sorted (map offset_key (insort_key start_offset x ys))"
proof (induction ys)
  case Nil
  then show ?case by simp
next
  case (Cons y ys)
  show ?case
  proof (cases "start_offset x \<le> start_offset y")
    case True
    have "offset_key x \<le> offset_key y"
      using True Cons.prems(2) by (auto simp: offset_key_def)
    with Cons.prems(1) True show ?thesis by fastforce
  next
    case False
    then have "offset_key y \<le> offset_key x" by (simp add: offset_key_def)
    with Cons False show ?thesis by (auto simp: set_insort_key)
  qed
qed

lemma sorted_offset_key_sort:
  "sorted (map (\<lambda>c. - chunk_size c) xs) \<Longrightarrow>
   sorted (map offset_key (sort_key start_offset xs))"
proof (induction xs)
  case Nil
  then show ?case by simp
next
  case (Cons x xs)
  from Cons.prems have "sorted (map (\<lambda>c. - chunk_size c) xs)" by simp
  then have srt: "sorted (map offset_key (sort_key start_offset xs))" by (rule Cons.IH)
  have "\<forall>y \<in> set (sort_key start_offset xs).
          start_offset y = start_offset x \<longrightarrow> end_offset y \<le> end_offset x"
    using Cons.prems by (auto simp: chunk_size_def)
  with srt show ?case
    by (simp add: sorted_offset_key_insort)
qed

lemma sorted_mset_unique:
  fixes xs ys :: "'a :: linorder list"
  assumes "sorted xs" "sorted ys" "mset xs = mset ys"
  shows "xs = ys"
  using assms properties_for_sort [of ys xs] properties_for_sort [of xs xs] by simp

lemma sorted_size_remove_inner_chunks:
  "sorted (map (\<lambda>c. - chunk_size c) (remove_inner_chunks cs))"
  by (simp add: remove_inner_chunks_filter chunks_by_size_def sorted_filter)

lemma mset_remove_inner_chunks:
  "mset (remove_inner_chunks cs) = filter_mset (\<lambda>c. \<forall>d \<in># mset cs. \<not> contains d c) (mset cs)"
  by (simp add: remove_inner_chunks_filter chunks_by_size_def)

lemma offset_keys_permutation:
  assumes "mset cs' = mset cs"
  shows "map offset_key (sort_key start_offset (remove_inner_chunks cs'))
       = map offset_key (sort_key start_offset (remove_inner_chunks cs))"
proof (rule sorted_mset_unique)
  show "sorted (map offset_key (sort_key start_offset (remove_inner_chunks cs')))"
    by (rule sorted_offset_key_sort [OF sorted_size_remove_inner_chunks])
  show "sorted (map offset_key (sort_key start_offset (remove_inner_chunks cs)))"
    by (rule sorted_offset_key_sort [OF sorted_size_remove_inner_chunks])
  show "mset (map offset_key (sort_key start_offset (remove_inner_chunks cs')))
      = mset (map offset_key (sort_key start_offset (remove_inner_chunks cs)))"
    using assms by (simp add: mset_remove_inner_chunks)
qed

lemma truncate_offset_key:
  "chunk.truncate c = \<lparr>start_offset = fst (offset_key c), end_offset = - snd (offset_key c)\<rparr>"
  by (simp add: chunk.truncate_def offset_key_def)

lemma map_truncate_offset_key:
  "map chunk.truncate xs
     = map (\<lambda>k. \<lparr>start_offset = fst k, end_offset = - snd k\<rparr>) (map offset_key xs)"
  by (simp add: truncate_offset_key)

lemma start_truncate: "start_offset (chunk.truncate c) = start_offset c"
  by (simp add: chunk.truncate_def)

lemma end_truncate: "end_offset (chunk.truncate c) = end_offset c"
  by (simp add: chunk.truncate_def)

lemma gap_loop_truncate:
  "gap_loop acc (map (map_prod chunk.truncate chunk.truncate) ps) = gap_loop acc ps"
  by (induction acc ps rule: gap_loop.induct)
    (auto simp: start_truncate end_truncate split: sum.splits)

lemma pairwise_adj_map: "pairwise_adj (map f xs) = map (map_prod f f) (pairwise_adj xs)"
  by (simp add: pairwise_adj_def map_tl [symmetric] zip_map_map map_prod_def)

lemma unknown_between_hd:
  "xs \<noteq> [] \<Longrightarrow> unknown_between xs file_size =
     (case (if start_offset (hd xs) \<noteq> 0
            then (case UnknownChunk 0 (start_offset (hd xs)) of
                    Inl err \<Rightarrow> Inl err
                  | Inr unknown_chunk \<Rightarrow> Inr [unknown_chunk])
            else Inr []) of
        Inl err \<Rightarrow> Inl err
      | Inr unknown_chunks \<Rightarrow>
          (case gap_loop unknown_chunks (pairwise_adj xs) of
             Inl err \<Rightarrow> Inl err
           | Inr unknown_chunks' \<Rightarrow>
               if end_offset (last xs) < file_size then
                 (case UnknownChunk (end_offset (last xs)) file_size of
                    Inl err \<Rightarrow> Inl err
                  | Inr unknown_chunk \<Rightarrow> Inr (unknown_chunks' @ [unknown_chunk]))
               else Inr unknown_chunks'))"
  by (cases xs) (auto simp: unknown_between_def Let_def split: sum.splits)

lemma unknown_between_truncate:
  "unknown_between (map chunk.truncate xs) file_size = unknown_between xs file_size"
proof (cases "xs = []")
  case True
  then show ?thesis by (simp add: unknown_between_def)
next
  case False
  then show ?thesis
    by (simp add: unknown_between_hd hd_map last_map pairwise_adj_map gap_loop_truncate
        start_truncate end_truncate
        cong: sum.case_cong if_cong)
qed

text \<open>
  C6. For every list \<open>cs\<close> of chunks, every file size and every permutation \<open>cs'\<close> of
  \<open>cs\<close>, \<open>calculate_unknown_chunks (remove_inner_chunks cs')\<close> gives the same outcome as
  \<open>calculate_unknown_chunks (remove_inner_chunks cs)\<close>: the same sequence of unknown
  chunks, or the same exception.
\<close>

theorem unknown_chunks_permutation_invariant:
  assumes "mset cs' = mset cs"
  shows "calculate_unknown_chunks (remove_inner_chunks cs') file_size
       = calculate_unknown_chunks (remove_inner_chunks cs) file_size"
proof -
  let ?outer' = "remove_inner_chunks cs'" and ?outer = "remove_inner_chunks cs"
  have "mset ?outer' = mset ?outer"
    using assms by (simp add: mset_remove_inner_chunks)
  then have "length ?outer' = length ?outer"
    by (rule mset_eq_length)
  then have empty: "?outer' = [] \<longleftrightarrow> ?outer = []"
    by (simp only: length_0_conv [symmetric])
  have "map chunk.truncate (sort_key start_offset ?outer')
      = map chunk.truncate (sort_key start_offset ?outer)"
    unfolding map_truncate_offset_key using offset_keys_permutation [OF assms] by simp
  then have "unknown_between (sort_key start_offset ?outer') file_size
      = unknown_between (sort_key start_offset ?outer) file_size"
    using unknown_between_truncate [of "sort_key start_offset ?outer'" file_size]
      unknown_between_truncate [of "sort_key start_offset ?outer" file_size]
    by simp
  with empty show ?thesis by (simp add: calculate_unknown_chunks_def)
qed

theorem unknown_chunks_permutation_invariant_witness:
  "calculate_unknown_chunks (remove_inner_chunks
       [\<lparr>start_offset = 20, end_offset = 30\<rparr>, \<lparr>start_offset = 5, end_offset = 15\<rparr>]) 40
   = calculate_unknown_chunks (remove_inner_chunks
       [\<lparr>start_offset = 5, end_offset = 15\<rparr>, \<lparr>start_offset = 20, end_offset = 30\<rparr>]) 40"
  using unknown_chunks_permutation_invariant
    [of "[\<lparr>start_offset = 20, end_offset = 30\<rparr>, \<lparr>start_offset = 5, end_offset = 15\<rparr>]"
        "[\<lparr>start_offset = 5, end_offset = 15\<rparr>, \<lparr>start_offset = 20, end_offset = 30\<rparr>]" 40]
  by simp

section \<open>Outer and unknown chunks tile the file\<close>






















section \<open>The exit code\<close>

text \<open>
  C8. \<open>get_exit_code_from_reports\<close> returns 1 if at least one of the reports it looks at
  (those of \<open>reports.errors\<close>) has severity \<open>ERROR\<close>, and 0 otherwise; in particular
  reports of severity \<open>WARNING\<close> without any \<open>ERROR\<close> give exit code 0.
\<close>

theorem exit_code_from_reports:
  "get_exit_code_from_reports errors severity_of all_reports
     = (if \<exists>r \<in> set (errors all_reports). severity_of r = ERROR then 1 else 0)
   \<and> ((\<forall>r \<in> set (errors all_reports). severity_of r \<noteq> ERROR) \<longrightarrow>
        get_exit_code_from_reports errors severity_of all_reports = 0)"
proof -
  have "ERROR \<in> severity_of ` set (errors all_reports)
      \<longleftrightarrow> (\<exists>r \<in> set (errors all_reports). severity_of r = ERROR)"
    by force
  then show ?thesis
    by (simp add: get_exit_code_from_reports_def severity_to_exit_code_def)
qed

theorem exit_code_from_reports_witness:
  "get_exit_code_from_reports (\<lambda>rs. rs) fst [(WARNING, ''unsafe symlink''), (ERROR, ''unknown error'')] = 1
   \<and> get_exit_code_from_reports (\<lambda>rs. rs) fst [(WARNING, ''unsafe symlink''), (WARNING, ''encrypted'')] = 0
   \<and> get_exit_code_from_reports (\<lambda>rs. rs) fst ([] :: (severity \<times> string) list) = 0"
  using exit_code_from_reports
      [of "\<lambda>rs. rs" fst "[(WARNING, ''unsafe symlink''), (ERROR, ''unknown error'')]"]
    exit_code_from_reports
      [of "\<lambda>rs. rs" fst "[(WARNING, ''unsafe symlink''), (WARNING, ''encrypted'')]"]
    exit_code_from_reports [of "\<lambda>rs. rs" fst "[] :: (severity \<times> string) list"]
  by simp

section \<open>The Netgear CHK handler\<close>

text \<open>
  C10. \<open>NetgearCHKHandler.calculate_chunk\<close> never returns \<open>None\<close>. Whenever the header
  parse succeeds, for a start offset in the file (non-negative), it returns a
  \<open>ValidChunk\<close> whose start offset is the given one and whose size is
  \<open>header_len + kernel_len + rootfs_len\<close>, unless that sum is zero: then the call raises
  \<open>InvalidInputFormat\<close>, from the validation of the chunk bounds.
\<close>

theorem netgear_calculate_chunk:
  "calculate_chunk parse_header file_read file start \<noteq> (Inr None :: exn + 'h valid_chunk option)
   \<and> (\<forall>header file'. parse_header file = Inr (header, file') \<longrightarrow> 0 \<le> start \<longrightarrow>
        (if uint (header_len header) + uint (kernel_len header) + uint (rootfs_len header) = 0
         then \<exists>msg. calculate_chunk parse_header file_read file start
                = (Inl (InvalidInputFormat msg) :: exn + 'h valid_chunk option)
         else \<exists>c. calculate_chunk parse_header file_read file start
                = (Inr (Some c) :: exn + 'h valid_chunk option)
              \<and> start_offset c = start
              \<and> chunk_size c
                  = uint (header_len header) + uint (kernel_len header) + uint (rootfs_len header)
              \<and> c = \<lparr>start_offset = start,
                     end_offset = start + uint (header_len header) + uint (kernel_len header)
                       + uint (rootfs_len header),
                     handler = None, is_encrypted = False\<rparr>))"
proof -
  have run: "calculate_chunk parse_header file_read file start
      = (case ValidChunk start
                (start + uint (header_len header) + uint (kernel_len header)
                   + uint (rootfs_len header)) False of
           Inl err \<Rightarrow> Inl err
         | Inr valid_chunk \<Rightarrow> (Inr (Some valid_chunk) :: exn + 'h valid_chunk option))"
    if "parse_header file = Inr (header, file')" for header file'
    using that by (simp add: calculate_chunk_def Let_def)
  have never_None: "calculate_chunk parse_header file_read file start
      \<noteq> (Inr None :: exn + 'h valid_chunk option)"
    by (auto simp: calculate_chunk_def Let_def split: sum.splits prod.splits)
  have decided: "if uint (header_len header) + uint (kernel_len header) + uint (rootfs_len header) = 0
         then \<exists>msg. calculate_chunk parse_header file_read file start
                = (Inl (InvalidInputFormat msg) :: exn + 'h valid_chunk option)
         else \<exists>c. calculate_chunk parse_header file_read file start
                = (Inr (Some c) :: exn + 'h valid_chunk option)
              \<and> start_offset c = start
              \<and> chunk_size c
                  = uint (header_len header) + uint (kernel_len header) + uint (rootfs_len header)
              \<and> c = \<lparr>start_offset = start,
                     end_offset = start + uint (header_len header) + uint (kernel_len header)
                       + uint (rootfs_len header),
                     handler = None, is_encrypted = False\<rparr>"
    if parsed: "parse_header file = Inr (header, file')" and start: "0 \<le> start"
    for header file'
  proof -
    let ?total = "uint (header_len header) + uint (kernel_len header) + uint (rootfs_len header)"
    have "0 \<le> uint (header_len header)" "0 \<le> uint (kernel_len header)"
      "0 \<le> uint (rootfs_len header)"
      by simp_all
    then have total: "0 \<le> ?total" by linarith
    show ?thesis
    proof (cases "?total = 0")
      case True
      then have "start + uint (header_len header) + uint (kernel_len header)
          + uint (rootfs_len header) = start" by linarith
      with True start show ?thesis
        by (simp add: run [OF parsed] ValidChunk_def post_init_def)
    next
      case False
      with total have "0 < ?total" by linarith
      then have "start < start + uint (header_len header) + uint (kernel_len header)
          + uint (rootfs_len header)" by linarith
      with False start show ?thesis
        by (simp add: run [OF parsed] ValidChunk_def post_init_def chunk_size_def)
    qed
  qed
  show ?thesis
    by (intro conjI allI impI; (rule never_None | erule (1) decided))
qed

theorem netgear_calculate_chunk_witness:
  "(\<exists>c. calculate_chunk
          (\<lambda>f. Inr (\<lparr>magic = 0x2a23245e, header_len = 58, reserved = [], kernel_chksum = 0,
                       rootfs_chksum = 0, kernel_len = 1000, rootfs_len = 2000,
                       image_chksum = 0, header_chksum = 0\<rparr>, f))
          (\<lambda>f n. ([], f)) () 64
        = (Inr (Some c) :: exn + string valid_chunk option)
      \<and> start_offset c = 64 \<and> chunk_size c = 3058)
   \<and> (\<exists>msg. calculate_chunk
          (\<lambda>f. Inr (\<lparr>magic = 0x2a23245e, header_len = 0, reserved = [], kernel_chksum = 0,
                       rootfs_chksum = 0, kernel_len = 0, rootfs_len = 0,
                       image_chksum = 0, header_chksum = 0\<rparr>, f))
          (\<lambda>f n. ([], f)) () 64
        = (Inl (InvalidInputFormat msg) :: exn + string valid_chunk option))"
  using netgear_calculate_chunk
      [where 'h = string,
        of "\<lambda>f. Inr (\<lparr>magic = 0x2a23245e, header_len = 58, reserved = [], kernel_chksum = 0,
                       rootfs_chksum = 0, kernel_len = 1000, rootfs_len = 2000,
                       image_chksum = 0, header_chksum = 0\<rparr>, f)"
           "\<lambda>f n. ([], f)" "()" 64]
    netgear_calculate_chunk
      [where 'h = string,
        of "\<lambda>f. Inr (\<lparr>magic = 0x2a23245e, header_len = 0, reserved = [], kernel_chksum = 0,
                       rootfs_chksum = 0, kernel_len = 0, rootfs_len = 0,
                       image_chksum = 0, header_chksum = 0\<rparr>, f)"
           "\<lambda>f n. ([], f)" "()" 64]
  by simp

section \<open>The task boundary\<close>

lemma fold_report_to:
  "fold report_to rs st = st\<lparr>result := (result st)\<lparr>reports := reports (result st) @ rs\<rparr>\<rparr>"
  by (induction rs arbitrary: st) (simp_all add: report_to_def add_report_def)

lemma with_perf_counter_eq:
  "with_perf_counter env title body st =
     (fst (body st),
      (snd (body st))\<lparr>result := (result (snd (body st)))
         \<lparr>reports := reports (result (snd (body st))) @ perf_reports env title\<rparr>\<rparr>)"
  by (simp add: with_perf_counter_def fold_report_to split: prod.splits)

lemma keeps_taskI:
  "(\<And>st. result_task (result (snd (p st))) = result_task (result st)) \<Longrightarrow> keeps_task p"
  by (simp add: keeps_task_def)

lemma keeps_taskD: "keeps_task p \<Longrightarrow> result_task (result (snd (p st))) = result_task (result st)"
  by (simp add: keeps_task_def)

lemma result_emit: "result (emit e st) = result st"
  by (simp add: emit_def)

lemma result_log: "result (log level msg st) = result st"
  by (simp add: log_def emit_def)

lemma task_report_to: "result_task (result (report_to r st)) = result_task (result st)"
  by (simp add: report_to_def add_report_def)

lemma task_enqueue: "result_task (result (enqueue t st)) = result_task (result st)"
  by (simp add: enqueue_def add_new_task_def)

lemma task_fold_report_to:
  "result_task (result (fold report_to rs st)) = result_task (result st)"
  by (simp add: fold_report_to)

lemma task_enqueue_entries:
  "result_task (result (enqueue_entries t entries st)) = result_task (result st)"
  unfolding enqueue_entries_def
  by (induction entries arbitrary: st) (simp_all add: task_enqueue)

lemma keeps_task_with_perf_counter:
  "keeps_task body \<Longrightarrow> keeps_task (with_perf_counter env title body)"
  by (simp add: keeps_task_def with_perf_counter_eq)

lemma result_handler_extract: "result (snd (handler_extract env h inpath outdir st)) = result st"
  by (simp add: handler_extract_def log_def emit_def Let_def
      split: option.splits sum.splits prod.splits)

lemma result_valid_chunk_extract:
  "result (snd (valid_chunk_extract env chunk inpath outdir st)) = result st"
  by (simp add: valid_chunk_extract_def result_handler_extract result_log split: option.splits)

lemma task_extract_failed:
  "result_task (result (snd (extract_failed err st))) = result_task (result st)"
  by (cases err) (simp_all add: extract_failed_def task_fold_report_to task_report_to result_log)

lemma task_try_extract:
  "result_task (result (snd (try_extract env config chunk inpath outdir st)))
     = result_task (result st)"
proof -
  obtain outcome st' where run: "valid_chunk_extract env chunk inpath outdir st = (outcome, st')"
    by (cases "valid_chunk_extract env chunk inpath outdir st")
  with result_valid_chunk_extract [of env chunk inpath outdir st]
  have same: "result st' = result st" by simp
  show ?thesis
    unfolding try_extract_def run
    by (simp add: same task_extract_failed result_log result_emit Let_def
        split: option.splits sum.splits)
qed

lemma keeps_task_extract_chunk: "keeps_task (extract_chunk env config t extract_dir chunk)"
proof (rule keeps_taskI)
  fix st :: "'a state"
  show "result_task (result (snd (extract_chunk env config t extract_dir chunk st)))
      = result_task (result st)"
  proof (cases "carve_valid_chunk env extract_dir chunk (fs st)")
    case (Pair carved files)
    show ?thesis
    proof (cases carved)
      case (Inl err)
      with Pair show ?thesis by (simp add: extract_chunk_def result_emit)
    next
      case (Inr carved_path)
      obtain inpath outdir where paths:
        "get_extract_paths env extract_dir carved_path = (inpath, outdir)"
        by (cases "get_extract_paths env extract_dir carved_path")
      let ?st1 = "emit (CarveValidChunk extract_dir) (st\<lparr>fs := files\<rparr>)"
      obtain outcome st2 where tried:
        "try_extract env config chunk inpath outdir ?st1 = (outcome, st2)"
        by (cases "try_extract env config chunk inpath outdir ?st1")
      with task_try_extract [of env config chunk inpath outdir ?st1]
      have st2: "result_task (result st2) = result_task (result st)"
        by (simp add: result_emit)
      from Pair Inr paths tried st2 show ?thesis
        by (cases outcome)
          (simp_all add: extract_chunk_def Let_def task_enqueue task_fold_report_to result_emit
            split: prod.splits option.splits)
    qed
  qed
qed

lemma result_entropy_loop: "result (snd (entropy_loop env config paths st)) = result st"
  by (induction paths arbitrary: st) (simp_all add: result_emit split: option.splits)

lemma keeps_task_calculate_entropies: "keeps_task (calculate_entropies env config t paths)"
  by (simp add: keeps_task_def calculate_entropies_def result_entropy_loop)

lemma keeps_task_extract_loop: "keeps_task (extract_loop env config t extract_dir chunks)"
proof (rule keeps_taskI)
  fix st :: "'a state"
  show "result_task (result (snd (extract_loop env config t extract_dir chunks st)))
      = result_task (result st)"
  proof (induction chunks arbitrary: st)
    case Nil
    then show ?case by simp
  next
    case (Cons chunk rest)
    let ?step = "with_perf_counter env ''Carve Valid Chunks''
        (extract_chunk env config t extract_dir chunk)"
    have one: "result_task (result (snd (?step st))) = result_task (result st)"
      by (rule keeps_taskD [OF keeps_task_with_perf_counter [OF keeps_task_extract_chunk]])
    obtain outcome st' where run: "?step st = (outcome, st')" by (cases "?step st")
    with one have "result_task (result st') = result_task (result st)" by simp
    with Cons.IH [of st'] run show ?case by (cases outcome) simp_all
  qed
qed

lemma keeps_task_process_chunks:
  "keeps_task (process_chunks env config t outer_chunks unknown_chunks)"
proof (rule keeps_taskI)
  fix st :: "'a state"
  have entropy: "result_task (result (snd (with_perf_counter env ''Calculate Entropy''
        (calculate_entropies env config t paths) s))) = result_task (result s)" for paths s
    by (rule keeps_taskD [OF keeps_task_with_perf_counter [OF keeps_task_calculate_entropies]])
  have loop: "result_task (result (snd (extract_loop env config t d outer_chunks s)))
      = result_task (result s)" for d s
    by (rule keeps_taskD [OF keeps_task_extract_loop])
  show "result_task (result (snd (process_chunks env config t outer_chunks unknown_chunks st)))
      = result_task (result st)"
  proof (cases "make_extract_dir env (root t) (path t) (extract_root config) (fs st)")
    case (Pair made files)
    show ?thesis
    proof (cases made)
      case (Inl err)
      with Pair show ?thesis by (simp add: process_chunks_def result_emit)
    next
      case (Inr extract_dir)
      let ?st1 = "emit (MakeExtractDir (path t)) (st\<lparr>fs := files\<rparr>)"
      obtain carved files' where carve:
        "carve_unknown_chunks env extract_dir unknown_chunks (fs ?st1) = (carved, files')"
        by (cases "carve_unknown_chunks env extract_dir unknown_chunks (fs ?st1)")
      show ?thesis
      proof (cases carved)
        case (Inl err)
        with Pair Inr carve show ?thesis by (simp add: process_chunks_def Let_def result_emit)
      next
        case carved_ok: (Inr paths)
        let ?st2 = "emit (CarveUnknownChunks extract_dir) (?st1\<lparr>fs := files'\<rparr>)"
        let ?ent = "with_perf_counter env ''Calculate Entropy''
            (calculate_entropies env config t paths) ?st2"
        obtain outcome st3 where ent: "?ent = (outcome, st3)" by (cases ?ent)
        with entropy [of paths ?st2] have "result_task (result st3) = result_task (result st)"
          by (simp add: result_emit)
        with loop [of extract_dir st3] Pair Inr carve carved_ok ent show ?thesis
          by (cases outcome) (simp_all add: process_chunks_def Let_def)
      qed
    qed
  qed
qed

lemma task_search_chunks:
  "result_task (result (snd (search_chunks env t file_size st))) = result_task (result st)"
  by (simp add: search_chunks_def task_fold_report_to result_emit split: prod.splits)

lemma keeps_task_process: "keeps_task (process env config t file_size)"
proof (rule keeps_taskI)
  fix st :: "'a state"
  let ?st0 = "log LogDebug ''Processing file'' st"
  have st0: "result ?st0 = result st" by (rule result_log)
  show "result_task (result (snd (process env config t file_size st))) = result_task (result st)"
  proof (cases "open_rb env (path t) (fs ?st0)")
    case (Some err)
    then show ?thesis by (simp add: process_def Let_def st0)
  next
    case None
    obtain found st1 where search: "search_chunks env t file_size ?st0 = (found, st1)"
      by (cases "search_chunks env t file_size ?st0")
    with task_search_chunks [of env t file_size ?st0]
    have st1: "result_task (result st1) = result_task (result st)" by (simp add: st0)
    show ?thesis
    proof (cases found)
      case (Inl err)
      with None search st1 show ?thesis by (simp add: process_def Let_def)
    next
      case (Inr all_chunks)
      let ?st2 = "log_removed all_chunks st1"
      have st2: "result_task (result ?st2) = result_task (result st)"
        by (simp add: log_removed_def result_log st1)
      have a: "result_task (result (snd (process_chunks env config t outer unknown ?st2)))
          = result_task (result st)" for outer unknown
        using keeps_taskD [OF keeps_task_process_chunks, of env config t outer unknown ?st2]
        by (simp add: st2)
      have b: "result_task (result (snd (with_perf_counter env ''Calculate Entropy''
          (calculate_entropies env config t [path t]) ?st2))) = result_task (result st)"
        using keeps_taskD [OF keeps_task_with_perf_counter [OF keeps_task_calculate_entropies],
            of env "''Calculate Entropy''" env config t "[path t]" ?st2]
        by (simp add: st2)
      from None search Inr show ?thesis
        by (simp add: process_def Let_def a b st2 split: sum.splits)
    qed
  qed
qed

lemma keeps_task_process_task_body: "keeps_task (process_task_body env config t)"
proof (rule keeps_taskI)
  fix st :: "'a state"
  have regular: "result_task (result (snd (with_perf_counter env ''Process Regular File''
        (process env config t file_size) st))) = result_task (result st)" for file_size
    by (rule keeps_taskD [OF keeps_task_with_perf_counter [OF keeps_task_process]])
  show "result_task (result (snd (process_task_body env config t st))) = result_task (result st)"
    by (simp add: process_task_body_def result_log task_enqueue_entries regular
        split: sum.splits prod.splits option.splits)
qed

lemma task_process_task:
  "result_task (result (snd (process_task env config t w))) = t"
proof -
  let ?st = "\<lparr>fs = fs w, events = events w, result = TaskResult t\<rparr>"
  let ?run = "with_perf_counter env ''Process Task'' (process_task_body env config t) ?st"
  have "result_task (result (snd ?run)) = result_task (result ?st)"
    by (rule keeps_taskD [OF keeps_task_with_perf_counter [OF keeps_task_process_task_body]])
  then have kept: "result_task (result (snd ?run)) = t" by (simp add: TaskResult_def)
  obtain outcome st' where run: "?run = (outcome, st')" by (cases ?run)
  with kept have "result_task (result st') = t" by simp
  with run show ?thesis
    by (cases outcome)
      (simp_all add: process_task_def process_error_def result_log task_report_to)
qed

text \<open>
  C7. For every task whose depth is at least \<open>max_depth\<close>, \<open>process_task\<close> returns a
  \<open>TaskResult\<close> whose \<open>new_tasks\<close> is empty, and nothing is done for the task beyond the
  debug log entry: the trace holds no chunk search, carving or extraction and the file
  system is unchanged. The only reports are those of the \<open>PerfCounter\<close> around the task.
\<close>

theorem max_depth_stops:
  assumes "depth t \<ge> max_depth config"
  shows "process_task env config t w =
     (None,
      \<lparr>fs = fs w,
       events = events w @ [Log LogDebug ''Reached maximum depth, stop further processing''],
       result = \<lparr>result_task = t, reports = perf_reports env ''Process Task'', new_tasks = []\<rparr>\<rparr>)"
  using assms
  by (simp add: process_task_def with_perf_counter_eq process_task_body_def log_def emit_def
      TaskResult_def)

theorem max_depth_stops_witness:
  "process_task sample_env sample_config \<lparr>root = ''in'', path = ''in/a.gz'', depth = 2\<rparr>
       \<lparr>fs = {''in/a.gz''}, events = []\<rparr> =
     (None,
      \<lparr>fs = {''in/a.gz''},
       events = [Log LogDebug ''Reached maximum depth, stop further processing''],
       result = \<lparr>result_task = \<lparr>root = ''in'', path = ''in/a.gz'', depth = 2\<rparr>,
                 reports = [PerfReport ''Process Task''], new_tasks = []\<rparr>\<rparr>)"
  using max_depth_stops
      [of sample_config "\<lparr>root = ''in'', path = ''in/a.gz'', depth = 2\<rparr>" sample_env
          "\<lparr>fs = {''in/a.gz''}, events = []\<rparr>"]
  by (simp add: sample_config_def sample_env_def)

text \<open>
  C3, as claimed, fails: \<open>process_task\<close> can raise. Its \<open>except Exception\<close> clause does not
  catch an exception that is not an instance of \<open>Exception\<close>: when \<open>lstat\<close> is
  interrupted from the keyboard, the \<open>KeyboardInterrupt\<close> leaves \<open>process_task\<close> and no
  \<open>UnknownError\<close> report is made.
\<close>

theorem process_task_interrupt_counterexample:
  "process_task interrupted_env sample_config \<lparr>root = ''in'', path = ''in/a.gz'', depth = 0\<rparr>
       \<lparr>fs = {''in/a.gz''}, events = []\<rparr>
   = (Some (BaseException ''KeyboardInterrupt''),
      \<lparr>fs = {''in/a.gz''}, events = [],
       result = \<lparr>result_task = \<lparr>root = ''in'', path = ''in/a.gz'', depth = 0\<rparr>,
                 reports = [PerfReport ''Process Task''], new_tasks = []\<rparr>\<rparr>)"
  by (simp add: process_task_def with_perf_counter_eq process_task_body_def interrupted_env_def
      sample_env_def sample_config_def TaskResult_def is_Exception_def)

text \<open>
  C3, amended. For every task, \<open>Processor.process_task\<close> returns a \<open>TaskResult\<close> and
  raises no exception that is an instance of \<open>Exception\<close>: such an exception that leaves
  the internal processing (\<open>_process_task\<close> within its \<open>PerfCounter\<close>) is caught at the
  task boundary and converted to a single \<open>UnknownError\<close> report, appended to the reports
  of the task's \<open>TaskResult\<close>, whose new tasks stay as they were; without an exception
  the result is the one the internal processing left. An exception that is not an
  instance of \<open>Exception\<close> (\<open>KeyboardInterrupt\<close>, \<open>SystemExit\<close>) is not caught: it leaves
  \<open>process_task\<close> and no report is made of it. The \<open>TaskResult\<close> is that of the task in
  every case.
\<close>

theorem process_task_catches_exceptions:
  "(case with_perf_counter env ''Process Task'' (process_task_body env config t)
              \<lparr>fs = fs w, events = events w, result = TaskResult t\<rparr> of
         (None, st') \<Rightarrow> process_task env config t w = (None, st')
       | (Some exc, st') \<Rightarrow>
           if is_Exception exc then
             fst (process_task env config t w) = None
             \<and> result (snd (process_task env config t w))
                 = (result st')\<lparr>reports := reports (result st') @ [UnknownError exc]\<rparr>
             \<and> new_tasks (result (snd (process_task env config t w))) = new_tasks (result st')
             \<and> fs (snd (process_task env config t w)) = fs st'
           else process_task env config t w = (Some exc, st'))
   \<and> (\<forall>exc. fst (process_task env config t w) = Some exc \<longrightarrow> \<not> is_Exception exc)
   \<and> result_task (result (snd (process_task env config t w))) = t"
proof (intro conjI)
  show "case with_perf_counter env ''Process Task'' (process_task_body env config t)
              \<lparr>fs = fs w, events = events w, result = TaskResult t\<rparr> of
         (None, st') \<Rightarrow> process_task env config t w = (None, st')
       | (Some exc, st') \<Rightarrow>
           if is_Exception exc then
             fst (process_task env config t w) = None
             \<and> result (snd (process_task env config t w))
                 = (result st')\<lparr>reports := reports (result st') @ [UnknownError exc]\<rparr>
             \<and> new_tasks (result (snd (process_task env config t w))) = new_tasks (result st')
             \<and> fs (snd (process_task env config t w)) = fs st'
           else process_task env config t w = (Some exc, st')"
    by (simp add: process_task_def process_error_def report_to_def add_report_def log_def
        emit_def split: prod.splits option.splits)
  show "\<forall>exc. fst (process_task env config t w) = Some exc \<longrightarrow> \<not> is_Exception exc"
    by (auto simp: process_task_def split: prod.splits option.splits if_splits)
  show "result_task (result (snd (process_task env config t w))) = t"
    by (rule task_process_task)
qed

theorem process_task_catches_exceptions_witness:
  "fst (process_task sample_env sample_config \<lparr>root = ''in'', path = ''in/a.gz'', depth = 0\<rparr>
       \<lparr>fs = {}, events = []\<rparr>) = None
   \<and> result (snd (process_task sample_env sample_config
          \<lparr>root = ''in'', path = ''in/a.gz'', depth = 0\<rparr> \<lparr>fs = {}, events = []\<rparr>))
     = \<lparr>result_task = \<lparr>root = ''in'', path = ''in/a.gz'', depth = 0\<rparr>,
        reports = [PerfReport ''Process Task'', UnknownError (OtherException ''FileNotFoundError'')],
        new_tasks = []\<rparr>"
proof -
  have body: "with_perf_counter sample_env ''Process Task''
        (process_task_body sample_env sample_config \<lparr>root = ''in'', path = ''in/a.gz'', depth = 0\<rparr>)
        \<lparr>fs = {}, events = [], result = TaskResult \<lparr>root = ''in'', path = ''in/a.gz'', depth = 0\<rparr>\<rparr>
      = (Some (OtherException ''FileNotFoundError''),
         \<lparr>fs = {}, events = [],
          result = \<lparr>result_task = \<lparr>root = ''in'', path = ''in/a.gz'', depth = 0\<rparr>,
                    reports = [PerfReport ''Process Task''], new_tasks = []\<rparr>\<rparr>)"
    by (simp add: with_perf_counter_eq process_task_body_def sample_env_def sample_config_def
        TaskResult_def)
  show ?thesis
    using process_task_catches_exceptions
      [of sample_env sample_config "\<lparr>root = ''in'', path = ''in/a.gz'', depth = 0\<rparr>"
          "\<lparr>fs = {}, events = []\<rparr>"]
    by (simp add: body is_Exception_def)
qed

section \<open>Encrypted chunks\<close>

lemma try_extract_encrypted:
  "is_encrypted chunk \<Longrightarrow>
   try_extract env config chunk inpath outdir st
     = (None, log LogWarning ''Encrypted file is not extracted'' st)"
  by (simp add: try_extract_def valid_chunk_extract_def extract_failed_def)

text \<open>
  C4, as claimed, fails: extracting an encrypted chunk adds no report to the result of
  the task. \<open>ValidChunk.extract\<close> logs a warning and raises \<open>ExtractError\<close> without
  reports, so the \<open>except ExtractError\<close> clause of \<open>_extract_chunk\<close> has nothing to add.
\<close>

theorem encrypted_chunk_counterexample:
  "extract_chunk sample_env sample_config \<lparr>root = ''in'', path = ''in/a.zip'', depth = 0\<rparr>
     ''out/a.zip_extract''
     \<lparr>start_offset = 0, end_offset = 4096,
      handler = Some sample_handler,
      is_encrypted = True\<rparr>
     \<lparr>fs = {''in/a.zip''}, events = [],
      result = \<lparr>result_task = \<lparr>root = ''in'', path = ''in/a.zip'', depth = 0\<rparr>,
                reports = [], new_tasks = []\<rparr>\<rparr>
   = (None,
      \<lparr>fs = {''out/a.zip_extract/chunk'', ''in/a.zip''},
       events = [CarveValidChunk ''out/a.zip_extract'',
                 Log LogWarning ''Encrypted file is not extracted'',
                 FixExtractedDirectory ''out/a.zip_extract/chunk_extract''],
       result = \<lparr>result_task = \<lparr>root = ''in'', path = ''in/a.zip'', depth = 0\<rparr>,
                 reports = [], new_tasks = []\<rparr>\<rparr>)"
  by (simp add: extract_chunk_def try_extract_encrypted sample_env_def sample_config_def
      log_def emit_def)

text \<open>
  C4, amended. When a valid chunk has \<open>is_encrypted = true\<close>, extracting it logs a
  warning and raises \<open>ExtractError\<close> without reports, and \<open>_extract_chunk\<close> adds no report
  of its own to the result of the task (the only reports added are those of
  \<open>fix_extracted_directory\<close>). No extraction is performed: between carving and the
  directory fix-up the trace holds the warning only, so the handler's extractor is never
  invoked, no output directory is created and the carved file is not removed. A child
  task is enqueued only if the output directory exists all the same after
  \<open>fix_extracted_directory\<close>.
\<close>

theorem encrypted_chunk_not_extracted:
  assumes "is_encrypted chunk"
    and "carve_valid_chunk env extract_dir chunk (fs st) = (Inr carved_path, fs1)"
    and "get_extract_paths env extract_dir carved_path = (inpath, outdir)"
    and "fix_extracted_directory env outdir fs1 = ((fix_reports, None), fs2)"
  shows "valid_chunk_extract env chunk inpath outdir st'
       = (Some (ExtractError []), log LogWarning ''Encrypted file is not extracted'' st')
     \<and> extract_chunk env config t extract_dir chunk st
       = (None,
          \<lparr>fs = fs2,
           events = events st @ [CarveValidChunk extract_dir,
                                 Log LogWarning ''Encrypted file is not extracted'',
                                 FixExtractedDirectory outdir],
           result = (result st)
             \<lparr>reports := reports (result st) @ fix_reports,
              new_tasks := new_tasks (result st) @
                (if path_exists env outdir fs2
                 then [\<lparr>root = extract_root config, path = outdir, depth = depth t + 1\<rparr>]
                 else [])\<rparr>\<rparr>)"
  using assms
  by (simp add: valid_chunk_extract_def extract_chunk_def try_extract_encrypted fold_report_to
      log_def emit_def enqueue_def add_new_task_def)

theorem encrypted_chunk_not_extracted_witness:
  "new_tasks (result (snd (extract_chunk sample_env sample_config
       \<lparr>root = ''in'', path = ''in/a.zip'', depth = 0\<rparr> ''out/a.zip_extract''
       \<lparr>start_offset = 0, end_offset = 4096,
        handler = Some sample_handler,
        is_encrypted = True\<rparr>
       \<lparr>fs = {''in/a.zip''}, events = [], result = TaskResult \<lparr>root = ''in'', path = ''in/a.zip'', depth = 0\<rparr>\<rparr>)))
     = []
   \<and> events (snd (extract_chunk sample_env sample_config
       \<lparr>root = ''in'', path = ''in/a.zip'', depth = 0\<rparr> ''out/a.zip_extract''
       \<lparr>start_offset = 0, end_offset = 4096,
        handler = Some sample_handler,
        is_encrypted = True\<rparr>
       \<lparr>fs = {''in/a.zip''}, events = [], result = TaskResult \<lparr>root = ''in'', path = ''in/a.zip'', depth = 0\<rparr>\<rparr>))
     = [CarveValidChunk ''out/a.zip_extract'',
        Log LogWarning ''Encrypted file is not extracted'',
        FixExtractedDirectory ''out/a.zip_extract/chunk_extract'']"
  using encrypted_chunk_not_extracted
    [of "\<lparr>start_offset = 0, end_offset = 4096,
          handler = Some sample_handler,
          is_encrypted = True\<rparr>"
        sample_env "''out/a.zip_extract''"
        "\<lparr>fs = {''in/a.zip''}, events = [], result = TaskResult \<lparr>root = ''in'', path = ''in/a.zip'', depth = 0\<rparr>\<rparr>"
        "''out/a.zip_extract/chunk''" "{''out/a.zip_extract/chunk'', ''in/a.zip''}"
        "''out/a.zip_extract/chunk''" "''out/a.zip_extract/chunk_extract''"
        "[]" "{''out/a.zip_extract/chunk'', ''in/a.zip''}" _ sample_config
        "\<lparr>root = ''in'', path = ''in/a.zip'', depth = 0\<rparr>"]
  by (simp add: sample_env_def sample_config_def TaskResult_def)

end
